theory Spec2Isabelle
  imports Complex_Main
begin

section \<open>Longitudinal bucket matching in particles/generators.py\<close>

text \<open>
  The module distributes macroparticle coordinates. Its class \<open>RFBucket\<close> matches a
  stationary density \<open>StationaryExponential\<close> to a target bunch length by a damped
  iteration and then fills the longitudinal coordinates by rejection sampling.

  Numbers: a finite float64 of the source is a real, and arithmetic on finite values is
  exact (rounding is outside the model). The values that are not finite are written out
  where the source can produce them: \<open>npfloat\<close> adds \<open>inf\<close>, \<open>-inf\<close> and \<open>nan\<close>, the
  estimators return \<open>np.sqrt(V/Q)\<close> as NumPy does for a zero divisor, and the density
  and the loop of the matcher are given twice, on reals (\<open>psi_function\<close>, \<open>iterate\<close>)
  and on floats with the overflow of \<open>np.exp\<close> and estimates that are \<open>nan\<close> or \<open>inf\<close>
  (\<open>psi_function_np\<close>, \<open>iterate_np\<close>). The Hamiltonian provider (\<open>rfsystem\<close>), SciPy's
  integrators and interpolation, and the random stream are collaborators of the module and
  appear as parameters.
\<close>

subsection \<open>StationaryExponential\<close>

text \<open>
  The class keeps the Hamiltonian \<open>H\<close> and the two numbers \<open>H0\<close> and \<open>Hmax\<close>; the
  fields are \<open>psi_H\<close>, \<open>psi_H0\<close> and \<open>psi_Hmax\<close> here, after the variable \<open>psi\<close> that
  holds the object throughout the source.
\<close>

record StationaryExponential =
  psi_H :: "real \<Rightarrow> real \<Rightarrow> real"
  psi_H0 :: real
  psi_Hmax :: real

definition StationaryExponential_init :: "(real \<Rightarrow> real \<Rightarrow> real) \<Rightarrow> StationaryExponential" where
  "StationaryExponential_init h = \<lparr>psi_H = h, psi_H0 = 1, psi_Hmax = h 0 0\<rparr>"

text \<open>
  \<open>StationaryExponential.function\<close>:
  \<^verbatim>\<open>(np.exp(self.H(z, dp)/self.H0) - 1) / (np.exp(self.Hmax/self.H0) - 1)\<close>.
  The method reads the object and writes nothing. Both quotients are by a number that can
  be zero (\<open>H0\<close>, and the denominator, which vanishes exactly when \<open>Hmax/H0\<close> does);
  there the source has no finite value and the model returns \<open>None\<close>. This is the
  formula in exact arithmetic; \<open>psi_function_np\<close> below is the same formula with the
  overflow of \<open>np.exp\<close>.
\<close>

definition psi_function :: "StationaryExponential \<Rightarrow> real \<Rightarrow> real \<Rightarrow> real option" where
  "psi_function psi z dp =
     (if psi_H0 psi = 0 then None
      else if exp (psi_Hmax psi / psi_H0 psi) - 1 = 0 then None
      else Some ((exp (psi_H psi z dp / psi_H0 psi) - 1) / (exp (psi_Hmax psi / psi_H0 psi) - 1)))"

subsection \<open>The Hamiltonian provider and RFBucket\<close>

text \<open>
  Modelled from the spec: the class of the Hamiltonian provider \<open>rfsystem\<close> is not part
  of the module. Its attributes are typed as the interface contract gives them:
  \<open>H(z, dp)\<close> and \<open>separatrix(z)\<close> as functions to a float, \<open>z_extrema\<close> and \<open>z_sep\<close> as
  pairs of floats, \<open>p_sep\<close> and \<open>circumference\<close> as floats, and \<open>H0(amplitude)\<close> as a
  function to a float.
\<close>

record rfsystem =
  rf_circumference :: real
  rf_hamiltonian :: "real \<Rightarrow> real \<Rightarrow> real"
  rf_separatrix :: "real \<Rightarrow> real"
  rf_z_extrema :: "real \<times> real"
  rf_z_sep :: "real \<times> real"
  rf_p_sep :: real
  rf_H0 :: "real \<Rightarrow> real"

text \<open>
  An estimator is one of the methods \<open>_compute_std_quad\<close>, \<open>_compute_std_cumtrapz\<close>,
  \<open>_compute_std_romberg\<close>, called as \<open>(psi.function, p_sep, xmin, xmax)\<close>. The bound
  method \<open>psi.function\<close> is the object \<open>psi\<close> itself: it reads \<open>H0\<close> and \<open>Hmax\<close> when it
  is called. The matcher is verified for every estimator, so the three are parameters:
  here for those that return a finite number, and in \<open>iterate_np\<close> below for those that
  return any float. What the trapezoid and Romberg estimators compute, and what they
  return when the normalisation vanishes, is modelled on its own below.
\<close>

type_synonym estimator = "StationaryExponential \<Rightarrow> (real \<Rightarrow> real) \<Rightarrow> real \<Rightarrow> real \<Rightarrow> real"

record estimators =
  std_quad :: estimator
  std_cumtrapz :: estimator
  std_romberg :: estimator

record RFBucket =
  sigma_z :: real
  circumference :: real
  hamiltonian :: "real \<Rightarrow> real \<Rightarrow> real"
  separatrix :: "real \<Rightarrow> real"
  z_extrema :: "real \<times> real"
  z_sep :: "real \<times> real"
  p_sep :: real
  H0 :: "real \<Rightarrow> real"
  compute_std :: estimator

text \<open>
  \<open>RFBucket.__init__(self, sigma_z, rfsystem)\<close> copies the provider's attributes into
  the object and selects the composite trapezoid estimator as \<open>_compute_std\<close>. It takes
  no seed and creates no random state of its own.
\<close>

definition RFBucket_init :: "estimators \<Rightarrow> real \<Rightarrow> rfsystem \<Rightarrow> RFBucket" where
  "RFBucket_init est sigma rf =
     \<lparr>sigma_z = sigma,
      circumference = rf_circumference rf,
      hamiltonian = rf_hamiltonian rf,
      separatrix = rf_separatrix rf,
      z_extrema = rf_z_extrema rf,
      z_sep = rf_z_sep rf,
      p_sep = rf_p_sep rf,
      H0 = rf_H0 rf,
      compute_std = std_cumtrapz est\<rparr>"

subsection \<open>Console output and the abort\<close>

text \<open>
  The \<open>print\<close> statements of the matcher, in the order they run: the maximum bunch
  length, the warning that the bunch is too long, the heading of the iteration, one line
  \<open>counter, zH, zS, eps\<close> per iteration, the warning of too many iteration steps (which
  ends with \<open>Aborting...\<close>), and \<open>Converged!\<close>. The type \<open>'a\<close> is that of the numbers
  printed.
\<close>

datatype 'a event =
    MaximumLength 'a
  | TooLong
  | IterativeEvaluation
  | Iteration nat 'a 'a 'a
  | TooManyIterations
  | Converged

text \<open>
  After the warning of too many iteration steps the source evaluates \<open>sys.exit(-1)\<close>.
  The module does not import \<open>sys\<close>, so the exception that leaves the method is a
  \<open>NameError\<close> where it would be \<open>SystemExit\<close>; either way an exception propagates out
  of \<open>_set_target_std\<close> and \<open>generate\<close>, and nothing in the module catches it.
\<close>

datatype error = Abort

subsection \<open>The feasibility check: \<open>_test_maximum_std\<close>\<close>

text \<open>One estimate of the maximum length: it is printed, then compared with the target.\<close>

definition report :: "real \<Rightarrow> real \<Rightarrow> real event list" where
  "report sigma zS = MaximumLength zS # (if sigma > zS * (95 / 100) then [TooLong] else [])"

definition test_maximum_std ::
  "estimators \<Rightarrow> RFBucket \<Rightarrow> StationaryExponential \<Rightarrow> real \<Rightarrow> StationaryExponential \<times> real event list" where
  "test_maximum_std est b psi sigma =
     (let psi1 = psi\<lparr>psi_H0 := H0 b (circumference b)\<rparr>;
          zS1 = std_quad est psi1 (separatrix b) (fst (z_sep b)) (snd (z_sep b));
          zS2 = std_cumtrapz est psi1 (separatrix b) (fst (z_sep b)) (snd (z_sep b));
          zS3 = std_romberg est psi1 (separatrix b) (fst (z_sep b)) (snd (z_sep b))
      in (psi1, report sigma zS1 @ report sigma zS2 @ report sigma zS3))"

subsection \<open>The iteration: \<open>_set_target_std\<close>\<close>

text \<open>
  The \<open>while abs(eps) > 1e-4\<close> loop, entered with the density \<open>psi\<close>, the guess \<open>zH\<close>,
  the residual \<open>eps\<close> and the \<open>counter\<close>; \<open>z0\<close> is the target. The result is the console
  output of the loop and either the abort or the density the method returns.
\<close>

function iterate ::
  "RFBucket \<Rightarrow> real \<Rightarrow> StationaryExponential \<Rightarrow> real \<Rightarrow> real \<Rightarrow> nat
     \<Rightarrow> real event list \<times> (error + StationaryExponential)" where
  "iterate b z0 psi zH eps counter =
     (if \<bar>eps\<bar> > 1 / 10000 then
        (let zS = compute_std b psi (separatrix b) (fst (z_sep b)) (snd (z_sep b));
             eps' = zS - z0;
             line = Iteration counter zH zS eps';
             zH' = zH - (1 / 2) * eps';
             psi' = psi\<lparr>psi_H0 := H0 b zH'\<rparr>;
             counter' = counter + 1
         in if counter' > 100 then ([line, TooManyIterations], Inl Abort)
            else apfst ((#) line) (iterate b z0 psi' zH' eps' counter'))
      else ([Converged], Inr psi))"
  by pat_completeness auto
termination
  by (relation "measure (\<lambda>(b, z0, psi, zH, eps, counter). 101 - counter)") auto

declare iterate.simps [simp del]

text \<open>
  Modelled from the spec: \<open>np.amax(self.hamiltonian(self.z_extrema, 0))\<close> applies the
  provider's Hamiltonian to \<open>z_extrema\<close>, a pair of positions by the interface contract,
  and takes the larger of the two values.
\<close>

definition Hmax_at_extrema :: "RFBucket \<Rightarrow> real" where
  "Hmax_at_extrema b =
     max (hamiltonian b (fst (z_extrema b)) 0) (hamiltonian b (snd (z_extrema b)) 0)"

definition set_target_std ::
  "estimators \<Rightarrow> RFBucket \<Rightarrow> StationaryExponential \<Rightarrow> real
     \<Rightarrow> real event list \<times> (error + StationaryExponential)" where
  "set_target_std est b psi sigma =
     (let (psi1, log1) = test_maximum_std est b psi sigma;
          psi2 = psi1\<lparr>psi_Hmax := Hmax_at_extrema b\<rparr>;
          counter = 0;
          z0 = sigma;
          eps = 1;
          zH = z0;
          psi3 = psi2\<lparr>psi_H0 := H0 b zH\<rparr>;
          (log2, r) = iterate b z0 psi3 zH eps counter
      in (log1 @ [IterativeEvaluation] @ log2, r))"

text \<open>The iteration lines \<open>counter, zH, zS, eps\<close> of a console output, in order.\<close>

fun iterations :: "'a event list \<Rightarrow> (nat \<times> 'a \<times> 'a \<times> 'a) list" where
  "iterations [] = []"
| "iterations (Iteration c g zS e # evs) = (c, g, zS, e) # iterations evs"
| "iterations (_ # evs) = iterations evs"

text \<open>The residuals \<open>eps\<close> printed by the iterations, in order.\<close>

definition residuals :: "'a event list \<Rightarrow> 'a list" where
  "residuals out = map (\<lambda>(c, g, zS, e). e) (iterations out)"

text \<open>
  \<open>damped zH its\<close>: the guesses printed by the iteration lines \<open>its\<close> start at \<open>zH\<close>, and
  each following guess is the one before it minus half the residual printed with it
  (\<open>zH -= 0.5 * eps\<close>).
\<close>

fun damped :: "real \<Rightarrow> (nat \<times> real \<times> real \<times> real) list \<Rightarrow> bool" where
  "damped zH [] = True"
| "damped zH ((c, g, zS, e) # rest) = (g = zH \<and> damped (zH - (1 / 2) * e) rest)"

subsection \<open>The estimators \<open>_compute_std_cumtrapz\<close> and \<open>_compute_std_romberg\<close>\<close>

text \<open>
  \<open>np.linspace(start, stop, num)\<close>: \<open>num\<close> points from \<open>start\<close> to \<open>stop\<close>, both
  included, at the constant step \<open>(stop - start) / (num - 1)\<close>.
\<close>

definition linspace :: "real \<Rightarrow> real \<Rightarrow> nat \<Rightarrow> real list" where
  "linspace start stop num =
     map (\<lambda>k. start + real k * ((stop - start) / real (num - 1))) [0..<num]"

text \<open>
  The last step of both estimators is \<open>np.sqrt(V/Q)\<close> on NumPy floats. NumPy does not
  raise where the divisor is zero or the radicand negative: with its default error state
  it warns and returns a non-finite float. \<open>np_divide a b minus_zero\<close> is the quotient of
  two finite floats, where \<open>minus_zero\<close> says that a zero divisor is \<open>-0.0\<close>, and
  \<open>np_sqrt\<close> is the square root. Finite results are exact: rounding, and overflow of a
  finite quotient, are outside the model.
\<close>

datatype npfloat = Finite real | PosInf | NegInf | NaN

definition np_divide :: "real \<Rightarrow> real \<Rightarrow> bool \<Rightarrow> npfloat" where
  "np_divide a b minus_zero =
     (if b \<noteq> 0 then Finite (a / b)
      else if a = 0 then NaN
      else if (0 < a) \<noteq> minus_zero then PosInf
      else NegInf)"

fun np_sqrt :: "npfloat \<Rightarrow> npfloat" where
  "np_sqrt (Finite r) = (if r < 0 then NaN else Finite (sqrt r))"
| "np_sqrt PosInf = PosInf"
| "np_sqrt NegInf = NaN"
| "np_sqrt NaN = NaN"

text \<open>
  Whether the product \<open>Q * dx\<close> of \<open>Q *= dx\<close>, when it is zero, is \<open>-0.0\<close>. A float
  product carries the exclusive-or of the sign bits of its factors, and a factor that is
  zero is \<open>+0.0\<close> here: \<open>Q\<close> is a sum started at \<open>0\<close>, and \<open>dx\<close> is the difference
  \<open>x_arr[1] - x_arr[0]\<close>.
\<close>

definition minus_zero_product :: "real \<Rightarrow> real \<Rightarrow> bool" where
  "minus_zero_product Q dx = ((Q < 0) \<noteq> (dx < 0))"

text \<open>
  \<open>cumtrapz(z, y)[-1]\<close>: the last entry of SciPy's cumulative trapezoid rule, the sum of
  \<open>(y[k+1] - y[k]) * (z[k] + z[k+1]) / 2\<close> over the intervals of the sample points \<open>y\<close>.
\<close>

fun cumtrapz_last :: "real list \<Rightarrow> real list \<Rightarrow> real" where
  "cumtrapz_last (z1 # z2 # zs) (y1 # y2 # ys) =
     (y2 - y1) * (z1 + z2) / 2 + cumtrapz_last (z2 # zs) (y2 # ys)"
| "cumtrapz_last _ _ = 0"

text \<open>
  The body of the loop \<open>for x in x_arr\<close> of \<open>_compute_std_cumtrapz\<close>, on the
  accumulators \<open>(Q, V)\<close>, and the method. Its parameter \<open>p_sep\<close> is written \<open>psep\<close>,
  the name \<open>p_sep\<close> being the attribute of \<open>RFBucket\<close>.
\<close>

definition cumtrapz_slice ::
  "(real \<Rightarrow> real \<Rightarrow> real) \<Rightarrow> (real \<Rightarrow> real) \<Rightarrow> real \<Rightarrow> real \<times> real \<Rightarrow> real \<times> real" where
  "cumtrapz_slice psi psep x = (\<lambda>(Q, V).
     (let y = linspace 0 (psep x) 257;
          z = map (psi x) y;
          Q = Q + cumtrapz_last z y;
          z = map (\<lambda>yy. x ^ 2 * psi x yy) y;
          V = V + cumtrapz_last z y
      in (Q, V)))"

definition compute_std_cumtrapz ::
  "(real \<Rightarrow> real \<Rightarrow> real) \<Rightarrow> (real \<Rightarrow> real) \<Rightarrow> real \<Rightarrow> real \<Rightarrow> npfloat" where
  "compute_std_cumtrapz psi psep xmin xmax =
     (let x_arr = linspace xmin xmax 257;
          dx = x_arr ! 1 - x_arr ! 0;
          (Q, V) = fold (cumtrapz_slice psi psep) x_arr (0, 0);
          minus_zero = minus_zero_product Q dx;
          Q = Q * dx;
          V = V * dx
      in np_sqrt (np_divide V Q minus_zero))"

text \<open>
  \<open>_compute_std_romberg\<close> has the same structure, with SciPy's \<open>romb(z, dy)\<close> for the
  integral over a slice; \<open>romb\<close> is a parameter.
\<close>

definition romberg_slice ::
  "(real list \<Rightarrow> real \<Rightarrow> real) \<Rightarrow> (real \<Rightarrow> real \<Rightarrow> real) \<Rightarrow> (real \<Rightarrow> real) \<Rightarrow> real
     \<Rightarrow> real \<times> real \<Rightarrow> real \<times> real" where
  "romberg_slice romb psi psep x = (\<lambda>(Q, V).
     (let y = linspace 0 (psep x) 257;
          dy = y ! 1 - y ! 0;
          z = map (psi x) y;
          Q = Q + romb z dy;
          z = map (\<lambda>yy. x ^ 2 * psi x yy) y;
          V = V + romb z dy
      in (Q, V)))"

definition compute_std_romberg ::
  "(real list \<Rightarrow> real \<Rightarrow> real) \<Rightarrow> (real \<Rightarrow> real \<Rightarrow> real) \<Rightarrow> (real \<Rightarrow> real) \<Rightarrow> real \<Rightarrow> real
     \<Rightarrow> npfloat" where
  "compute_std_romberg romb psi psep xmin xmax =
     (let x_arr = linspace xmin xmax 257;
          dx = x_arr ! 1 - x_arr ! 0;
          (Q, V) = fold (romberg_slice romb psi psep) x_arr (0, 0);
          minus_zero = minus_zero_product Q dx;
          Q = Q * dx;
          V = V * dx
      in np_sqrt (np_divide V Q minus_zero))"

subsection \<open>The density and the iteration on float64 values that are not finite\<close>



text \<open>Subtraction, and the product \<open>0.5 * eps\<close>, with IEEE's rules for \<open>inf\<close> and \<open>nan\<close>.\<close>

fun np_minus :: "npfloat \<Rightarrow> npfloat \<Rightarrow> npfloat" where
  "np_minus (Finite a) (Finite b) = Finite (a - b)"
| "np_minus NaN _ = NaN"
| "np_minus _ NaN = NaN"
| "np_minus PosInf PosInf = NaN"
| "np_minus NegInf NegInf = NaN"
| "np_minus PosInf _ = PosInf"
| "np_minus NegInf _ = NegInf"
| "np_minus (Finite a) PosInf = NegInf"
| "np_minus (Finite a) NegInf = PosInf"

fun np_half :: "npfloat \<Rightarrow> npfloat" where
  "np_half (Finite e) = Finite ((1 / 2) * e)"
| "np_half PosInf = PosInf"
| "np_half NegInf = NegInf"
| "np_half NaN = NaN"



text \<open>
  The test \<open>abs(eps) > t\<close> of the loop: a comparison with \<open>nan\<close> is false.
\<close>

fun np_abs_greater :: "npfloat \<Rightarrow> real \<Rightarrow> bool" where
  "np_abs_greater (Finite e) t = (t < \<bar>e\<bar>)"
| "np_abs_greater NaN t = False"
| "np_abs_greater PosInf t = True"
| "np_abs_greater NegInf t = True"


text \<open>
  The loop of \<open>_set_target_std\<close> on floats. During the loop only \<open>psi.H0\<close> changes, so
  the estimator call \<open>self._compute_std(psi.function, ...)\<close> is a function \<open>estimate\<close> of
  the current \<open>psi.H0\<close>, and \<open>H0f\<close> is the provider's \<open>H0\<close>; both take and return any
  float. The state is \<open>psi.H0\<close>, the guess \<open>zH\<close>, the residual \<open>eps\<close> and the \<open>counter\<close>.
  The result is the console output and either the abort or the \<open>H0\<close> of the density that
  is returned.
\<close>

function iterate_np ::
  "(npfloat \<Rightarrow> npfloat) \<Rightarrow> (npfloat \<Rightarrow> npfloat) \<Rightarrow> real \<Rightarrow> npfloat \<Rightarrow> npfloat \<Rightarrow> npfloat \<Rightarrow> nat
     \<Rightarrow> npfloat event list \<times> (error + npfloat)" where
  "iterate_np H0f estimate z0 psiH0 zH eps counter =
     (if np_abs_greater eps (1 / 10000) then
        (let zS = estimate psiH0;
             eps' = np_minus zS (Finite z0);
             line = Iteration counter zH zS eps';
             zH' = np_minus zH (np_half eps');
             psiH0' = H0f zH';
             counter' = counter + 1
         in if counter' > 100 then ([line, TooManyIterations], Inl Abort)
            else apfst ((#) line) (iterate_np H0f estimate z0 psiH0' zH' eps' counter'))
      else ([Converged], Inr psiH0))"
  by pat_completeness auto
termination
  by (relation "measure (\<lambda>(H0f, estimate, z0, psiH0, zH, eps, counter). 101 - counter)") auto

declare iterate_np.simps [simp del]


subsection \<open>The particle buffer and \<open>RFBucket.generate\<close>\<close>

text \<open>
  The buffer exposes \<open>n_macroparticles\<close> and the coordinate arrays \<open>x\<close>, \<open>xp\<close>, \<open>y\<close>,
  \<open>yp\<close>, \<open>z\<close>, \<open>dp\<close>; \<open>generate\<close> also sets an attribute \<open>psi\<close>, absent before the
  call. The fields carry the prefix \<open>part_\<close>.
\<close>

record Particles =
  n_macroparticles :: nat
  part_x :: "real list"
  part_xp :: "real list"
  part_y :: "real list"
  part_yp :: "real list"
  part_z :: "real list"
  part_dp :: "real list"
  part_psi :: "StationaryExponential option"

text \<open>
  The loop \<open>while j < particles.n_macroparticles\<close>. Each pass takes three numbers from
  NumPy's global random stream, in the order \<open>u\<close>, \<open>v\<close>, \<open>s\<close>; \<open>draws\<close> is the finite
  part of the stream that is supplied. The source puts no bound on the number of passes:
  the result is \<open>None\<close> when the loop is still running after all supplied draws, and the
  local arrays \<open>x\<close>, \<open>y\<close> with the counters \<open>i\<close>, \<open>j\<close> when it has left the loop.
\<close>

fun rejection ::
  "(real \<Rightarrow> real \<Rightarrow> real) \<Rightarrow> real \<Rightarrow> real \<Rightarrow> real \<Rightarrow> real \<Rightarrow> nat
     \<Rightarrow> real list \<Rightarrow> real list \<Rightarrow> nat \<Rightarrow> nat \<Rightarrow> real list
     \<Rightarrow> (real list \<times> real list \<times> nat \<times> nat) option" where
  "rejection psi_interp xmin lx ymin ly n x y i j draws =
     (if j < n then
        (case draws of
           r1 # r2 # r3 # rest \<Rightarrow>
             (let u = xmin + lx * r1;
                  v = ymin + ly * r2;
                  s = r3
              in if s < psi_interp u v
                 then rejection psi_interp xmin lx ymin ly n (x[j := u]) (y[j := v]) (i + 1) (j + 1) rest
                 else rejection psi_interp xmin lx ymin ly n x y (i + 1) j rest)
         | _ \<Rightarrow> None)
      else Some (x, y, i, j))"

declare rejection.simps [simp del]

text \<open>
  How a call of \<open>generate\<close> stands once the supplied draws are used: it has returned, it
  has raised (the abort of the matcher), or it is still sampling.
\<close>

datatype outcome = Returned | Raised error | Sampling

text \<open>
  SciPy's \<open>interp2d(xx, yy, HH)\<close> returns the interpolant as a function of a point; it is
  a parameter. \<open>psi_interpolant\<close> is the part of \<open>generate\<close> that builds the grid of
  \<open>(nx + 1) x (ny + 1)\<close> points over the box of the separatrix and interpolates the
  density on it; the grid values \<open>HH = psi(XX, YY)\<close> are one row per entry of \<open>yy\<close>.
\<close>

type_synonym interpolation =
  "real list \<Rightarrow> real list \<Rightarrow> real option list list \<Rightarrow> real \<Rightarrow> real \<Rightarrow> real"

definition psi_interpolant :: "interpolation \<Rightarrow> RFBucket \<Rightarrow> StationaryExponential \<Rightarrow> real \<Rightarrow> real \<Rightarrow> real" where
  "psi_interpolant interp2d b psi =
     (let nx = 128; ny = 128;
          xmin = fst (z_sep b); xmax = snd (z_sep b);
          ymin = - p_sep b; ymax = p_sep b;
          xx = linspace xmin xmax (nx + 1);
          yy = linspace ymin ymax (ny + 1);
          HH = map (\<lambda>yv. map (\<lambda>xv. psi_function psi xv yv) xx) yy
      in interp2d xx yy HH)"

text \<open>
  \<open>generate\<close> returns the console output, how the call stands, and the buffer as the
  caller then sees it.
\<close>

definition generate ::
  "estimators \<Rightarrow> interpolation \<Rightarrow> RFBucket \<Rightarrow> real list \<Rightarrow> Particles
     \<Rightarrow> real event list \<times> outcome \<times> Particles" where
  "generate est interp2d b draws particles =
     (case set_target_std est b (StationaryExponential_init (hamiltonian b)) (sigma_z b) of
        (out, Inl err) \<Rightarrow> (out, Raised err, particles)
      | (out, Inr psi) \<Rightarrow>
          (let x = replicate (n_macroparticles particles) 0;
               y = replicate (n_macroparticles particles) 0;
               i = 0; j = 0;
               xmin = fst (z_sep b); xmax = snd (z_sep b);
               ymin = - p_sep b; ymax = p_sep b;
               lx = xmax - xmin;
               ly = ymax - ymin;
               psi_interp = psi_interpolant interp2d b psi
           in case rejection psi_interp xmin lx ymin ly (n_macroparticles particles) x y i j draws of
                None \<Rightarrow> (out, Sampling, particles)
              | Some (x', y', i', j') \<Rightarrow>
                  (out, Returned, particles\<lparr>part_z := x', part_dp := y', part_psi := Some psi\<rparr>)))"

text \<open>
  For the statements about the samples: the proposals \<open>(u, v, s)\<close> made from a list of
  draws, three draws each; the pairs \<open>(u, v)\<close> of the proposals with \<open>s < psi_interp(u, v)\<close>,
  in order; and the accepted pairs of a call of \<open>generate\<close>.
\<close>

fun proposals :: "real \<Rightarrow> real \<Rightarrow> real \<Rightarrow> real \<Rightarrow> real list \<Rightarrow> (real \<times> real \<times> real) list" where
  "proposals xmin lx ymin ly (r1 # r2 # r3 # rest) =
     (xmin + lx * r1, ymin + ly * r2, r3) # proposals xmin lx ymin ly rest"
| "proposals xmin lx ymin ly _ = []"

definition accepted :: "(real \<Rightarrow> real \<Rightarrow> real) \<Rightarrow> (real \<times> real \<times> real) list \<Rightarrow> (real \<times> real) list" where
  "accepted f ps = map (\<lambda>(u, v, s). (u, v)) (filter (\<lambda>(u, v, s). s < f u v) ps)"

definition samples :: "interpolation \<Rightarrow> RFBucket \<Rightarrow> StationaryExponential \<Rightarrow> real list \<Rightarrow> (real \<times> real) list" where
  "samples interp2d b psi draws =
     accepted (psi_interpolant interp2d b psi)
       (proposals (fst (z_sep b)) (snd (z_sep b) - fst (z_sep b)) (- p_sep b) (p_sep b - - p_sep b) draws)"

subsection \<open>Example objects\<close>

text \<open>A parabolic well \<open>H(z, dp) = 1 - z\<^sup>2 - dp\<^sup>2\<close>: its separatrix \<open>H = 0\<close> is the unit circle.\<close>

definition well :: "real \<Rightarrow> real \<Rightarrow> real" where
  "well z dp = 1 - z * z - dp * dp"

definition well_psi :: StationaryExponential where
  "well_psi = \<lparr>psi_H = well, psi_H0 = 1 / 2, psi_Hmax = 1\<rparr>"

text \<open>
  A provider with \<open>H(z, dp) = z + 2\<close>, so that \<open>H(0, 0) = 2\<close> while the larger value at
  the extrema \<open>1\<close> and \<open>3\<close> is \<open>5\<close>; \<open>H0\<close> is the identity and the circumference is \<open>10\<close>.
\<close>

definition toy_rf :: rfsystem where
  "toy_rf =
     \<lparr>rf_circumference = 10, rf_hamiltonian = (\<lambda>z dp. z + 2), rf_separatrix = (\<lambda>z. 1),
      rf_z_extrema = (1, 3), rf_z_sep = (- 1, 1), rf_p_sep = 1, rf_H0 = (\<lambda>a. a)\<rparr>"

definition toy_psi :: StationaryExponential where
  "toy_psi = StationaryExponential_init (rf_hamiltonian toy_rf)"

text \<open>
  Two sets of estimators. With the first the trapezoid estimate is \<open>2\<close> for the scale
  \<open>H0 = 1\<close> and \<open>1\<close> for any other, and the iteration for the target \<open>1\<close> converges in its
  second pass. With the second the estimate is \<open>5\<close> whatever the scale, and the
  iteration never comes close to the target \<open>1\<close>.
\<close>

definition toy_estimator :: estimator where
  "toy_estimator psi p xmin xmax = (if psi_H0 psi = 1 then 2 else 1)"

definition toy_estimators :: estimators where
  "toy_estimators =
     \<lparr>std_quad = (\<lambda>psi p xmin xmax. 3), std_cumtrapz = toy_estimator,
      std_romberg = (\<lambda>psi p xmin xmax. 2)\<rparr>"

definition far_estimators :: estimators where
  "far_estimators =
     \<lparr>std_quad = (\<lambda>psi p xmin xmax. 3), std_cumtrapz = (\<lambda>psi p xmin xmax. 5),
      std_romberg = (\<lambda>psi p xmin xmax. 2)\<rparr>"

definition toy_bucket :: RFBucket where
  "toy_bucket = RFBucket_init toy_estimators 1 toy_rf"

definition far_bucket :: RFBucket where
  "far_bucket = RFBucket_init far_estimators 1 toy_rf"

text \<open>
  A density that is \<open>1\<close> everywhere, a separatrix that is \<open>0\<close> everywhere, and a stand-in
  for \<open>romb\<close> that, like a quadrature rule, is proportional to the step.
\<close>

definition unit_density :: "real \<Rightarrow> real \<Rightarrow> real" where
  "unit_density x y = 1"

definition zero_separatrix :: "real \<Rightarrow> real" where
  "zero_separatrix x = 0"

definition scaled_sum :: "real list \<Rightarrow> real \<Rightarrow> real" where
  "scaled_sum zs dx = dx * sum_list zs"

text \<open>
  For \<open>generate\<close>: an interpolant that is \<open>1/2\<close> everywhere, nine draws (three
  proposals, the second of which is rejected), a buffer of two macroparticles, and the
  density the matcher returns in the first run.
\<close>

definition flat_interp :: interpolation where
  "flat_interp xx yy HH u v = 1 / 2"

definition toy_draws :: "real list" where
  "toy_draws = [1 / 2, 1 / 2, 1 / 4, 1 / 4, 3 / 4, 9 / 10, 0, 1 / 2, 1 / 10]"

definition toy_particles :: Particles where
  "toy_particles =
     \<lparr>n_macroparticles = 2, part_x = [1, 2], part_xp = [3, 4], part_y = [5, 6], part_yp = [7, 8],
      part_z = [9, 10], part_dp = [11, 12], part_psi = None\<rparr>"

definition toy_matched :: StationaryExponential where
  "toy_matched = \<lparr>psi_H = rf_hamiltonian toy_rf, psi_H0 = 1 / 2, psi_Hmax = 5\<rparr>"






section \<open>Properties\<close>

subsection \<open>The stationary density\<close>



text \<open>
  Claim C3. \<open>StationaryExponential.function\<close> evaluates
  \<open>(exp (H(z, dp) / H0) - 1) / (exp (Hmax / H0) - 1)\<close> at every point \<open>(z, dp)\<close>,
  wherever the two divisors are not zero (that is, \<open>H0 \<noteq> 0\<close> and \<open>Hmax \<noteq> 0\<close>). It is a
  function of the point and of the object's current \<open>H\<close>, \<open>H0\<close> and \<open>Hmax\<close> alone: two
  objects that agree on these three give the same value, and the call returns a value
  and no changed object.
\<close>

theorem function_is_stationary_exponential:
  assumes "psi_H0 psi \<noteq> 0" and "psi_Hmax psi \<noteq> 0"
  shows "psi_function psi z dp =
      Some ((exp (psi_H psi z dp / psi_H0 psi) - 1) / (exp (psi_Hmax psi / psi_H0 psi) - 1))
    \<and> psi_function \<lparr>psi_H = psi_H psi, psi_H0 = psi_H0 psi, psi_Hmax = psi_Hmax psi\<rparr> z dp
        = psi_function psi z dp"
  using assms by (simp add: psi_function_def)

theorem function_is_stationary_exponential_witness:
  "psi_H0 well_psi \<noteq> 0 \<and> psi_Hmax well_psi \<noteq> 0
   \<and> psi_function well_psi 0 0 = Some 1
   \<and> psi_function well_psi (1 / 2) 0 = Some ((exp (3 / 2) - 1) / (exp 2 - 1))"
proof -
  have h0: "psi_H0 well_psi \<noteq> 0" and hm: "psi_Hmax well_psi \<noteq> 0"
    by (simp_all add: well_psi_def)
  have a: "psi_function well_psi 0 0 = Some 1"
    using function_is_stationary_exponential [OF h0 hm, of 0 0]
    by (simp add: well_psi_def well_def)
  have b: "psi_function well_psi (1 / 2) 0 = Some ((exp (3 / 2) - 1) / (exp 2 - 1))"
    using function_is_stationary_exponential [OF h0 hm, of "1 / 2" 0]
    by (simp add: well_psi_def well_def)
  from h0 hm a b show ?thesis by simp
qed


subsection \<open>The stationary density in float64\<close>










subsection \<open>The iteration, one pass at a time\<close>

lemma iterate_converged:
  "\<not> 1 / 10000 < \<bar>eps\<bar> \<Longrightarrow> iterate b z0 psi zH eps counter = ([Converged], Inr psi)"
  by (simp add: iterate.simps)

lemma iterate_abort:
  "1 / 10000 < \<bar>eps\<bar> \<Longrightarrow> 100 \<le> counter \<Longrightarrow>
   iterate b z0 psi zH eps counter =
     ([Iteration counter zH (compute_std b psi (separatrix b) (fst (z_sep b)) (snd (z_sep b)))
         (compute_std b psi (separatrix b) (fst (z_sep b)) (snd (z_sep b)) - z0),
       TooManyIterations], Inl Abort)"
  by (simp add: iterate.simps [of b z0 psi zH eps counter] Let_def)

lemma iterate_step:
  "1 / 10000 < \<bar>eps\<bar> \<Longrightarrow> counter < 100 \<Longrightarrow>
   iterate b z0 psi zH eps counter =
     apfst ((#) (Iteration counter zH (compute_std b psi (separatrix b) (fst (z_sep b)) (snd (z_sep b)))
         (compute_std b psi (separatrix b) (fst (z_sep b)) (snd (z_sep b)) - z0)))
       (iterate b z0
          (psi\<lparr>psi_H0 := H0 b (zH - (1 / 2) * (compute_std b psi (separatrix b) (fst (z_sep b)) (snd (z_sep b)) - z0))\<rparr>)
          (zH - (1 / 2) * (compute_std b psi (separatrix b) (fst (z_sep b)) (snd (z_sep b)) - z0))
          (compute_std b psi (separatrix b) (fst (z_sep b)) (snd (z_sep b)) - z0)
          (counter + 1))"
  by (simp add: iterate.simps [of b z0 psi zH eps counter] Let_def)

lemma iterate_cases:
  fixes eps :: real and counter :: nat
  obtains (converged) "\<not> 1 / 10000 < \<bar>eps\<bar>"
  | (abort) "1 / 10000 < \<bar>eps\<bar>" "100 \<le> counter"
  | (step) "1 / 10000 < \<bar>eps\<bar>" "counter < 100"
  by (cases "1 / 10000 < \<bar>eps\<bar>"; cases "counter < 100") auto

lemma iterate_output_nonempty: "fst (iterate b z0 psi zH eps counter) \<noteq> []"
  by (cases rule: iterate_cases [where eps = eps and counter = counter])
     (simp_all add: iterate_converged iterate_abort iterate_step)

lemma iterate_lines:
  assumes "psi_H0 psi = H0 b zH"
    and "(c, g, zS, e) \<in> set (iterations (fst (iterate b z0 psi zH eps counter)))"
  shows "zS = compute_std b (psi\<lparr>psi_H0 := H0 b g\<rparr>) (separatrix b) (fst (z_sep b)) (snd (z_sep b))
     \<and> e = zS - z0"
  using assms
proof (induction b z0 psi zH eps counter rule: iterate.induct)
  case (1 b z0 psi zH eps counter)
  let ?zS = "compute_std b psi (separatrix b) (fst (z_sep b)) (snd (z_sep b))"
  have same: "psi\<lparr>psi_H0 := H0 b zH\<rparr> = psi" using "1.prems"(1) by simp
  show ?case
  proof (cases rule: iterate_cases [where eps = eps and counter = counter])
    case converged
    with "1.prems" show ?thesis by (simp add: iterate_converged)
  next
    case abort
    with "1.prems"(2) have "(c, g, zS, e) = (counter, zH, ?zS, ?zS - z0)"
      by (simp add: iterate_abort)
    then show ?thesis using same by simp
  next
    case step
    from "1.prems"(2) step
    have "(c, g, zS, e) = (counter, zH, ?zS, ?zS - z0)
       \<or> (c, g, zS, e) \<in> set (iterations (fst (iterate b z0
            (psi\<lparr>psi_H0 := H0 b (zH - (1 / 2) * (?zS - z0))\<rparr>) (zH - (1 / 2) * (?zS - z0))
            (?zS - z0) (counter + 1))))"
      by (simp add: iterate_step)
    then show ?thesis
    proof
      assume "(c, g, zS, e) = (counter, zH, ?zS, ?zS - z0)"
      then show ?thesis using same by simp
    next
      assume mem: "(c, g, zS, e) \<in> set (iterations (fst (iterate b z0
            (psi\<lparr>psi_H0 := H0 b (zH - (1 / 2) * (?zS - z0))\<rparr>) (zH - (1 / 2) * (?zS - z0))
            (?zS - z0) (counter + 1))))"
      have under: "\<not> 100 < counter + 1" using step by simp
      from "1.IH" [OF step(1) refl refl refl refl refl refl under _ mem]
      show ?thesis by simp
    qed
  qed
qed

lemma iterate_damped: "damped zH (iterations (fst (iterate b z0 psi zH eps counter)))"
proof (induction b z0 psi zH eps counter rule: iterate.induct)
  case (1 b z0 psi zH eps counter)
  show ?case
  proof (cases rule: iterate_cases [where eps = eps and counter = counter])
    case converged
    then show ?thesis by (simp add: iterate_converged)
  next
    case abort
    then show ?thesis by (simp add: iterate_abort)
  next
    case step
    have under: "\<not> 100 < counter + 1" using step by simp
    from "1.IH" [OF step(1) refl refl refl refl refl refl under] step
    show ?thesis by (simp add: iterate_step)
  qed
qed

lemma residuals_simps [simp]:
  "residuals [] = []"
  "residuals (Iteration c g zS e # evs) = e # residuals evs"
  "residuals (Converged # evs) = residuals evs"
  "residuals (TooManyIterations # evs) = residuals evs"
  "residuals (IterativeEvaluation # evs) = residuals evs"
  "residuals (TooLong # evs) = residuals evs"
  "residuals (MaximumLength m # evs) = residuals evs"
  by (simp_all add: residuals_def)

lemma residuals_append [simp]: "residuals (xs @ ys) = residuals xs @ residuals ys"
  by (induction xs rule: iterations.induct) simp_all

lemma iterate_enters:
  "residuals (fst (iterate b z0 psi zH eps counter)) \<noteq> [] \<longleftrightarrow> 1 / 10000 < \<bar>eps\<bar>"
  by (cases rule: iterate_cases [where eps = eps and counter = counter])
     (simp_all add: iterate_converged iterate_abort iterate_step)

lemma iterate_never_close:
  assumes "\<And>p. 1 / 10000 < \<bar>compute_std b p (separatrix b) (fst (z_sep b)) (snd (z_sep b)) - z0\<bar>"
    and "1 / 10000 < \<bar>eps\<bar>"
  shows "snd (iterate b z0 psi zH eps counter) = Inl Abort"
  using assms
proof (induction b z0 psi zH eps counter rule: iterate.induct)
  case (1 b z0 psi zH eps counter)
  let ?zS = "compute_std b psi (separatrix b) (fst (z_sep b)) (snd (z_sep b))"
  show ?case
  proof (cases "counter < 100")
    case False
    with "1.prems"(2) show ?thesis by (simp add: iterate_abort)
  next
    case True
    have under: "\<not> 100 < counter + 1" using True by simp
    have far: "1 / 10000 < \<bar>?zS - z0\<bar>" by (rule "1.prems"(1))
    from "1.IH" [OF "1.prems"(2) refl refl refl refl refl refl under "1.prems"(1) far]
    show ?thesis using "1.prems"(2) True by (simp add: iterate_step)
  qed
qed

subsection \<open>The matcher\<close>

lemma iterations_report [simp]: "iterations (report sigma zS) = []"
  by (simp add: report_def)

lemma iterations_append [simp]: "iterations (xs @ ys) = iterations xs @ iterations ys"
  by (induction xs rule: iterations.induct) simp_all

lemma residuals_report [simp]: "residuals (report sigma zS) = []"
  by (simp add: residuals_def)

lemma set_target_std_unfold:
  "set_target_std est b psi sigma =
     (snd (test_maximum_std est b psi sigma) @ IterativeEvaluation #
        fst (iterate b sigma (psi\<lparr>psi_Hmax := Hmax_at_extrema b, psi_H0 := H0 b sigma\<rparr>) sigma 1 0),
      snd (iterate b sigma (psi\<lparr>psi_Hmax := Hmax_at_extrema b, psi_H0 := H0 b sigma\<rparr>) sigma 1 0))"
  by (simp add: set_target_std_def test_maximum_std_def Let_def case_prod_beta)

lemma iterations_test_maximum_std [simp]:
  "iterations (snd (test_maximum_std est b psi sigma)) = []"
  by (simp add: test_maximum_std_def Let_def)

lemma residuals_test_maximum_std [simp]:
  "residuals (snd (test_maximum_std est b psi sigma)) = []"
  by (simp add: residuals_def)

lemma iterations_set_target_std:
  "iterations (fst (set_target_std est b psi sigma)) =
     iterations (fst (iterate b sigma (psi\<lparr>psi_Hmax := Hmax_at_extrema b, psi_H0 := H0 b sigma\<rparr>) sigma 1 0))"
  by (simp add: set_target_std_unfold)

lemma last_set_target_std:
  "last (fst (set_target_std est b psi sigma)) =
     last (IterativeEvaluation #
       fst (iterate b sigma (psi\<lparr>psi_Hmax := Hmax_at_extrema b, psi_H0 := H0 b sigma\<rparr>) sigma 1 0))"
  by (simp add: set_target_std_unfold)

subsection \<open>Two runs of the matcher\<close>

lemmas toy_defs = toy_bucket_def RFBucket_init_def toy_estimators_def
  toy_rf_def toy_estimator_def toy_psi_def StationaryExponential_init_def

lemma toy_run:
  "set_target_std toy_estimators toy_bucket toy_psi 1 =
     ([MaximumLength 3, MaximumLength 1, TooLong, MaximumLength 2, IterativeEvaluation,
       Iteration 0 1 2 1, Iteration 1 (1 / 2) 1 0, Converged],
      Inr \<lparr>psi_H = rf_hamiltonian toy_rf, psi_H0 = 1 / 2, psi_Hmax = 5\<rparr>)"
  by (simp add: set_target_std_def test_maximum_std_def report_def toy_defs Hmax_at_extrema_def
      iterate.simps Let_def)

lemma far_run: "snd (set_target_std far_estimators far_bucket toy_psi 1) = Inl Abort"
  unfolding set_target_std_unfold snd_conv
  by (rule iterate_never_close) (simp_all add: far_bucket_def far_estimators_def RFBucket_init_def)

subsection \<open>The update rule\<close>

text \<open>
  Claim C1, as the code has it. In every iteration the residual is the length \<open>zS\<close>
  computed for the current guess (the density carries \<open>H0 = H0_func(zH)\<close> and the \<open>Hmax\<close>
  of the extrema) minus the fixed target \<open>sigma\<close>: \<open>eps = zS - z0\<close>. The guess starts at
  the target and each pass replaces it by \<open>zH - 0.5 * eps\<close>. The loop runs at least once.
\<close>

theorem residual_against_target:
  fixes est b psi sigma
  defines "its \<equiv> iterations (fst (set_target_std est b psi sigma))"
  shows "its \<noteq> [] \<and> damped sigma its
    \<and> (\<forall>(c, g, zS, e) \<in> set its.
          zS = compute_std b (psi\<lparr>psi_Hmax := Hmax_at_extrema b, psi_H0 := H0 b g\<rparr>)
                 (separatrix b) (fst (z_sep b)) (snd (z_sep b))
          \<and> e = zS - sigma)"
proof -
  let ?psi = "psi\<lparr>psi_Hmax := Hmax_at_extrema b, psi_H0 := H0 b sigma\<rparr>"
  have its: "its = iterations (fst (iterate b sigma ?psi sigma 1 0))"
    unfolding its_def by (rule iterations_set_target_std)
  have "residuals (fst (iterate b sigma ?psi sigma 1 0)) \<noteq> []"
    by (simp add: iterate_enters)
  then have ne: "its \<noteq> []" by (simp add: its residuals_def)
  have d: "damped sigma its" unfolding its by (rule iterate_damped)
  have h: "psi_H0 ?psi = H0 b sigma" by simp
  have l: "zS = compute_std b (psi\<lparr>psi_Hmax := Hmax_at_extrema b, psi_H0 := H0 b g\<rparr>)
                 (separatrix b) (fst (z_sep b)) (snd (z_sep b)) \<and> e = zS - sigma"
    if "(c, g, zS, e) \<in> set its" for c g zS e
    using iterate_lines [OF h that [unfolded its]] by simp
  from ne d l show ?thesis by blast
qed

theorem residual_against_target_witness:
  "iterations (fst (set_target_std toy_estimators toy_bucket toy_psi 1)) = [(0, 1, 2, 1), (1, 1 / 2, 1, 0)]
   \<and> damped 1 [(0, 1, 2, 1), (1, 1 / 2, 1, 0)]
   \<and> compute_std toy_bucket (toy_psi\<lparr>psi_Hmax := Hmax_at_extrema toy_bucket, psi_H0 := H0 toy_bucket (1 / 2)\<rparr>)
        (separatrix toy_bucket) (fst (z_sep toy_bucket)) (snd (z_sep toy_bucket)) = 1
   \<and> (0::real) = 1 - 1"
proof -
  have run: "iterations (fst (set_target_std toy_estimators toy_bucket toy_psi 1))
      = [(0, 1, 2, 1), (1, 1 / 2, 1, 0)]"
    by (simp add: toy_run)
  from residual_against_target [of toy_estimators toy_bucket toy_psi 1]
  show ?thesis unfolding run by simp
qed

text \<open>
  Claim C1, as the spec states it, fails: in the second pass of the first run the guess is
  \<open>1/2\<close>, the computed length is \<open>1\<close> and the printed residual is \<open>0 = 1 - 1\<close>, the length
  minus the target, where the length minus the guess is \<open>1/2\<close>.
\<close>

theorem residual_minus_guess_counterexample:
  "iterations (fst (set_target_std toy_estimators toy_bucket toy_psi 1)) ! 1 = (1, 1 / 2, 1, 0)
   \<and> (0::real) \<noteq> 1 - 1 / 2"
  by (simp add: toy_run)

subsection \<open>The feasibility check\<close>

text \<open>
  Claim C6. The check sets \<open>psi.H0 = H0_func(circumference)\<close> and computes the maximum
  length with each of the three estimators; each estimate is printed and followed by the
  warning exactly when the target exceeds \<open>0.95\<close> times that estimate. The check has no
  other outcome, and the matching that follows is the iteration started from the target:
  its run does not depend on the estimates or on the warnings.
\<close>

theorem feasibility_check:
  fixes est b psi sigma
  defines "psi1 \<equiv> psi\<lparr>psi_H0 := H0 b (circumference b)\<rparr>"
  defines "zS1 \<equiv> std_quad est psi1 (separatrix b) (fst (z_sep b)) (snd (z_sep b))"
  defines "zS2 \<equiv> std_cumtrapz est psi1 (separatrix b) (fst (z_sep b)) (snd (z_sep b))"
  defines "zS3 \<equiv> std_romberg est psi1 (separatrix b) (fst (z_sep b)) (snd (z_sep b))"
  defines "matching \<equiv>
    iterate b sigma (psi\<lparr>psi_Hmax := Hmax_at_extrema b, psi_H0 := H0 b sigma\<rparr>) sigma 1 0"
  shows "test_maximum_std est b psi sigma
           = (psi1, report sigma zS1 @ report sigma zS2 @ report sigma zS3)
     \<and> report sigma zS
           = (if 95 / 100 * zS < sigma then [MaximumLength zS, TooLong] else [MaximumLength zS])
     \<and> set_target_std est b psi sigma
           = (report sigma zS1 @ report sigma zS2 @ report sigma zS3
                @ IterativeEvaluation # fst matching, snd matching)"
  unfolding psi1_def zS1_def zS2_def zS3_def matching_def
  by (simp add: set_target_std_unfold test_maximum_std_def report_def Let_def mult.commute)

theorem feasibility_check_witness:
  "test_maximum_std toy_estimators toy_bucket toy_psi 1
     = (toy_psi\<lparr>psi_H0 := 10\<rparr>, [MaximumLength 3, MaximumLength 1, TooLong, MaximumLength 2])
   \<and> (95 / 100 * 1 < (1::real)) \<and> \<not> (95 / 100 * 3 < (1::real))
   \<and> snd (set_target_std toy_estimators toy_bucket toy_psi 1)
       = Inr \<lparr>psi_H = rf_hamiltonian toy_rf, psi_H0 = 1 / 2, psi_Hmax = 5\<rparr>"
proof -
  note check = feasibility_check
    [where est = toy_estimators and b = toy_bucket and psi = toy_psi and sigma = 1]
  from check have a: "test_maximum_std toy_estimators toy_bucket toy_psi 1
     = (toy_psi\<lparr>psi_H0 := 10\<rparr>, [MaximumLength 3, MaximumLength 1, TooLong, MaximumLength 2])"
    by (simp add: report_def toy_bucket_def toy_estimators_def toy_estimator_def
          RFBucket_init_def toy_rf_def)
  from a show ?thesis by (simp add: toy_run)
qed

text \<open>
  Claim C4 does not hold of the code. \<open>_set_target_std\<close> runs the feasibility check
  before it assigns \<open>psi.Hmax\<close>, so the three estimates of the check evaluate the density
  with the constructor's \<open>Hmax = H(0, 0)\<close>. For the example provider that is \<open>2\<close>, while
  the value at the extrema is \<open>5\<close>.
\<close>

theorem precheck_density_has_origin_Hmax:
  "fst (test_maximum_std toy_estimators toy_bucket
          (StationaryExponential_init (hamiltonian toy_bucket)) (sigma_z toy_bucket))
     = \<lparr>psi_H = hamiltonian toy_bucket, psi_H0 = 10, psi_Hmax = 2\<rparr>
   \<and> hamiltonian toy_bucket 0 0 = 2
   \<and> Hmax_at_extrema toy_bucket = 5"
  by (simp add: test_maximum_std_def toy_defs Hmax_at_extrema_def Let_def)

subsection \<open>The estimators with a separatrix that vanishes\<close>

lemma cumtrapz_last_constant_points:
  "\<forall>y \<in> set ys. y = c \<Longrightarrow> cumtrapz_last zs ys = 0"
  by (induction zs ys rule: cumtrapz_last.induct) simp_all

lemma cumtrapz_last_zero_width [simp]: "cumtrapz_last zs (map (\<lambda>k. c) ks) = 0"
  by (rule cumtrapz_last_constant_points [where c = c]) simp

lemma linspace_zero_width: "linspace c c num = map (\<lambda>k. c) [0..<num]"
  by (simp add: linspace_def)

lemma fold_fixed: "(\<And>x. x \<in> set xs \<Longrightarrow> f x acc = acc) \<Longrightarrow> fold f xs acc = acc"
  by (induction xs) simp_all

lemma cumtrapz_slice_zero_separatrix: "cumtrapz_slice psi (\<lambda>x. 0) x (Q, V) = (Q, V)"
  by (simp add: cumtrapz_slice_def Let_def linspace_zero_width)

lemma cumtrapz_zero_separatrix: "compute_std_cumtrapz psi (\<lambda>x. 0) xmin xmax = NaN"
proof -
  have "fold (cumtrapz_slice psi (\<lambda>x. 0)) (linspace xmin xmax 257) (0, 0) = (0, 0)"
    by (rule fold_fixed) (rule cumtrapz_slice_zero_separatrix)
  then show ?thesis
    by (simp add: compute_std_cumtrapz_def Let_def np_divide_def)
qed

lemma romberg_slice_zero_separatrix:
  assumes "\<And>zs. romb zs 0 = 0"
  shows "romberg_slice romb psi (\<lambda>x. 0) x (Q, V) = (Q, V)"
proof -
  have "linspace 0 0 257 ! 1 - linspace 0 0 257 ! 0 = 0"
    by (simp add: linspace_def)
  then show ?thesis using assms by (simp add: romberg_slice_def Let_def)
qed

lemma romberg_zero_separatrix:
  assumes "\<And>zs. romb zs 0 = 0"
  shows "compute_std_romberg romb psi (\<lambda>x. 0) xmin xmax = NaN"
proof -
  have "fold (romberg_slice romb psi (\<lambda>x. 0)) (linspace xmin xmax 257) (0, 0) = (0, 0)"
    using assms by (intro fold_fixed romberg_slice_zero_separatrix)
  then show ?thesis
    by (simp add: compute_std_romberg_def Let_def np_divide_def)
qed

lemma zero_separatrix_fun: "zero_separatrix = (\<lambda>x. 0)"
  by (rule ext) (simp add: zero_separatrix_def)

text \<open>
  Claim C7, as the code has it. With a separatrix function that returns \<open>0\<close> everywhere
  the normalisation \<open>Q\<close> is zero, and the composite trapezoid estimator returns NaN to its
  caller: it raises nothing. So does the Romberg estimator whenever \<open>romb\<close> returns \<open>0\<close>
  for a zero step. Neither method tests \<open>Q\<close>.
\<close>

theorem zero_normalisation_returns_nan:
  "compute_std_cumtrapz psi (\<lambda>x. 0) xmin xmax = NaN
   \<and> ((\<forall>zs. romb zs 0 = 0) \<longrightarrow> compute_std_romberg romb psi (\<lambda>x. 0) xmin xmax = NaN)"
  using cumtrapz_zero_separatrix romberg_zero_separatrix by blast

theorem zero_normalisation_returns_nan_witness:
  "scaled_sum [1, 2] 0 = 0
   \<and> compute_std_cumtrapz unit_density zero_separatrix (- 1) 1 = NaN
   \<and> compute_std_romberg scaled_sum unit_density zero_separatrix (- 1) 1 = NaN"
proof -
  have r: "\<forall>zs. scaled_sum zs 0 = 0" by (simp add: scaled_sum_def)
  from zero_normalisation_returns_nan [of unit_density "- 1" 1 scaled_sum] r
  show ?thesis by (simp add: zero_separatrix_fun)
qed

text \<open>
  Claim C7, as the spec states it, fails: for the unit density and the zero separatrix on
  \<open>(-1, 1)\<close> the estimator returns NaN.
\<close>

theorem zero_separatrix_counterexample:
  "compute_std_cumtrapz unit_density zero_separatrix (- 1) 1 = NaN"
  by (simp add: zero_separatrix_fun cumtrapz_zero_separatrix)

subsection \<open>The loop on floats\<close>

lemma iterate_np_converged:
  "\<not> np_abs_greater eps (1 / 10000) \<Longrightarrow>
   iterate_np H0f estimate z0 psiH0 zH eps counter = ([Converged], Inr psiH0)"
  by (simp add: iterate_np.simps)

lemma iterate_np_abort:
  "np_abs_greater eps (1 / 10000) \<Longrightarrow> 100 \<le> counter \<Longrightarrow>
   iterate_np H0f estimate z0 psiH0 zH eps counter =
     ([Iteration counter zH (estimate psiH0) (np_minus (estimate psiH0) (Finite z0)),
       TooManyIterations], Inl Abort)"
  by (simp add: iterate_np.simps [of H0f estimate z0 psiH0 zH eps counter] Let_def)

lemma iterate_np_step:
  "np_abs_greater eps (1 / 10000) \<Longrightarrow> counter < 100 \<Longrightarrow>
   iterate_np H0f estimate z0 psiH0 zH eps counter =
     apfst ((#) (Iteration counter zH (estimate psiH0) (np_minus (estimate psiH0) (Finite z0))))
       (iterate_np H0f estimate z0
          (H0f (np_minus zH (np_half (np_minus (estimate psiH0) (Finite z0)))))
          (np_minus zH (np_half (np_minus (estimate psiH0) (Finite z0))))
          (np_minus (estimate psiH0) (Finite z0))
          (counter + 1))"
  by (simp add: iterate_np.simps [of H0f estimate z0 psiH0 zH eps counter] Let_def)









text \<open>
  On finite floats the loop is \<open>iterate\<close>: when the provider's \<open>H0\<close> and the estimator
  return finite numbers, it prints the same lines and ends the same way.
\<close>

lemma iterate_np_finite:
  assumes "\<And>g. H0f (Finite g) = Finite (H0 b g)"
    and "\<And>h. estimate (Finite h)
          = Finite (compute_std b (psi\<lparr>psi_H0 := h\<rparr>) (separatrix b) (fst (z_sep b)) (snd (z_sep b)))"
  shows "iterate_np H0f estimate z0 (Finite (psi_H0 psi)) (Finite zH) (Finite eps) counter
     = (map (map_event Finite) (fst (iterate b z0 psi zH eps counter)),
        map_sum id (\<lambda>p. Finite (psi_H0 p)) (snd (iterate b z0 psi zH eps counter)))"
  using assms
proof (induction b z0 psi zH eps counter rule: iterate.induct)
  case (1 b z0 psi zH eps counter)
  let ?zS = "compute_std b psi (separatrix b) (fst (z_sep b)) (snd (z_sep b))"
  have same: "psi\<lparr>psi_H0 := psi_H0 psi\<rparr> = psi" by simp
  have est: "estimate (Finite (psi_H0 psi)) = Finite ?zS"
    using "1.prems"(2) [of "psi_H0 psi"] by (simp only: same)
  show ?case
  proof (cases rule: iterate_cases [where eps = eps and counter = counter])
    case converged
    then show ?thesis by (simp add: iterate_converged iterate_np_converged)
  next
    case abort
    then show ?thesis by (simp add: iterate_abort iterate_np_abort est)
  next
    case step
    define psi' where "psi' = psi\<lparr>psi_H0 := H0 b (zH - (1 / 2) * (?zS - z0))\<rparr>"
    have under: "\<not> 100 < counter + 1" using step by simp
    have est': "\<And>h. estimate (Finite h)
          = Finite (compute_std b (psi'\<lparr>psi_H0 := h\<rparr>) (separatrix b) (fst (z_sep b)) (snd (z_sep b)))"
      using "1.prems"(2) by (simp add: psi'_def)
    have IH: "iterate_np H0f estimate z0 (Finite (psi_H0 psi')) (Finite (zH - (1 / 2) * (?zS - z0)))
        (Finite (?zS - z0)) (counter + 1)
     = (map (map_event Finite)
          (fst (iterate b z0 psi' (zH - (1 / 2) * (?zS - z0)) (?zS - z0) (counter + 1))),
        map_sum id (\<lambda>p. Finite (psi_H0 p))
          (snd (iterate b z0 psi' (zH - (1 / 2) * (?zS - z0)) (?zS - z0) (counter + 1))))"
      unfolding psi'_def
      by (rule "1.IH" [OF step(1) refl refl refl refl refl refl under "1.prems"(1) est' [unfolded psi'_def]])
    have h: "Finite (psi_H0 psi') = H0f (Finite (zH - (1 / 2) * (?zS - z0)))"
      by (simp add: psi'_def "1.prems"(1))
    have a: "iterate b z0 psi zH eps counter
        = apfst ((#) (Iteration counter zH ?zS (?zS - z0)))
            (iterate b z0 psi' (zH - (1 / 2) * (?zS - z0)) (?zS - z0) (counter + 1))"
      using step unfolding psi'_def by (simp only: iterate_step)
    have c: "iterate_np H0f estimate z0 (Finite (psi_H0 psi)) (Finite zH) (Finite eps) counter
        = apfst ((#) (Iteration counter (Finite zH) (Finite ?zS) (Finite (?zS - z0))))
            (iterate_np H0f estimate z0 (Finite (psi_H0 psi')) (Finite (zH - (1 / 2) * (?zS - z0)))
               (Finite (?zS - z0)) (counter + 1))"
      using step unfolding h by (simp add: iterate_np_step est)
    show ?thesis unfolding a c IH by (simp add: id_def)
  qed
qed





subsection \<open>Convergence and abort\<close>




subsection \<open>The rejection loop\<close>

lemma rejection_done:
  "\<not> j < n \<Longrightarrow> rejection f xmin lx ymin ly n x y i j draws = Some (x, y, i, j)"
  by (simp add: rejection.simps)

lemma rejection_exhausted:
  "j < n \<Longrightarrow> length draws < 3 \<Longrightarrow> rejection f xmin lx ymin ly n x y i j draws = None"
  by (auto simp add: rejection.simps [of _ _ _ _ _ _ _ _ _ _ draws] split: list.splits)

lemma rejection_short:
  "length draws < 3 \<Longrightarrow>
   rejection f xmin lx ymin ly n x y i j draws = (if j < n then None else Some (x, y, i, j))"
  by (simp add: rejection_done rejection_exhausted)

lemma rejection_accept:
  "j < n \<Longrightarrow> r3 < f (xmin + lx * r1) (ymin + ly * r2) \<Longrightarrow>
   rejection f xmin lx ymin ly n x y i j (r1 # r2 # r3 # rest) =
     rejection f xmin lx ymin ly n (x[j := xmin + lx * r1]) (y[j := ymin + ly * r2]) (i + 1) (j + 1) rest"
  by (simp add: rejection.simps [of _ _ _ _ _ _ _ _ _ _ "r1 # r2 # r3 # rest"] Let_def)

lemma rejection_reject:
  "j < n \<Longrightarrow> \<not> r3 < f (xmin + lx * r1) (ymin + ly * r2) \<Longrightarrow>
   rejection f xmin lx ymin ly n x y i j (r1 # r2 # r3 # rest) =
     rejection f xmin lx ymin ly n x y (i + 1) j rest"
  by (simp add: rejection.simps [of _ _ _ _ _ _ _ _ _ _ "r1 # r2 # r3 # rest"] Let_def)

lemma accepted_simps [simp]:
  "accepted f [] = []"
  "accepted f ((u, v, s) # ps) = (if s < f u v then (u, v) # accepted f ps else accepted f ps)"
  by (simp_all add: accepted_def)

lemma take_Suc_zip_update:
  assumes "j < length x" and "j < length y"
  shows "take (Suc j) (zip (x[j := u]) (y[j := v])) = take j (zip x y) @ [(u, v)]"
proof -
  have "zip (x[j := u]) (y[j := v]) = (zip x y)[j := (u, v)]"
    by (simp add: zip_update)
  moreover have "j < length (zip x y)" using assms by simp
  ultimately show ?thesis
    by (simp add: take_Suc_conv_app_nth)
qed

lemma rejection_result:
  assumes "rejection f xmin lx ymin ly n x y i j draws = Some (x', y', i', j')"
    and "j \<le> n" and "length x = n" and "length y = n"
  shows "length x' = n \<and> length y' = n \<and> j' = n
     \<and> n - j \<le> length (accepted f (proposals xmin lx ymin ly draws))
     \<and> zip x' y' = take j (zip x y) @ take (n - j) (accepted f (proposals xmin lx ymin ly draws))"
  using assms
proof (induction xmin lx ymin ly draws arbitrary: x y i j rule: proposals.induct)
  case (1 xmin lx ymin ly r1 r2 r3 rest)
  let ?u = "xmin + lx * r1" and ?v = "ymin + ly * r2"
  show ?case
  proof (cases "j < n")
    case False
    with "1.prems" show ?thesis by (simp add: rejection_done)
  next
    case True
    show ?thesis
    proof (cases "r3 < f ?u ?v")
      case acc: True
      from "1.prems"(1) True acc
      have r: "rejection f xmin lx ymin ly n (x[j := ?u]) (y[j := ?v]) (i + 1) (j + 1) rest
          = Some (x', y', i', j')"
        by (simp add: rejection_accept)
      have IH: "length x' = n \<and> length y' = n \<and> j' = n
         \<and> n - (j + 1) \<le> length (accepted f (proposals xmin lx ymin ly rest))
         \<and> zip x' y' = take (j + 1) (zip (x[j := ?u]) (y[j := ?v]))
              @ take (n - (j + 1)) (accepted f (proposals xmin lx ymin ly rest))"
        using "1.IH" [OF r] True "1.prems"(3,4) by simp
      have t: "take (j + 1) (zip (x[j := ?u]) (y[j := ?v])) = take j (zip x y) @ [(?u, ?v)]"
        using True "1.prems"(3,4) by (simp add: take_Suc_zip_update)
      have n: "n - j = Suc (n - (j + 1))" using True by simp
      from IH show ?thesis unfolding t n using acc by simp
    next
      case rej: False
      from "1.prems"(1) True rej
      have r: "rejection f xmin lx ymin ly n x y (i + 1) j rest = Some (x', y', i', j')"
        by (simp add: rejection_reject)
      from "1.IH" [OF r "1.prems"(2,3,4)] rej show ?thesis by simp
    qed
  qed
qed (simp_all add: rejection_short split: if_splits)

lemma proposals_in_box:
  assumes "\<forall>r \<in> set draws. 0 \<le> r \<and> r < 1" and "0 \<le> lx" and "0 \<le> ly"
    and "(u, v, s) \<in> set (proposals xmin lx ymin ly draws)"
  shows "xmin \<le> u \<and> u \<le> xmin + lx \<and> ymin \<le> v \<and> v \<le> ymin + ly"
  using assms
proof (induction xmin lx ymin ly draws rule: proposals.induct)
  case (1 xmin lx ymin ly r1 r2 r3 rest)
  have r1: "0 \<le> r1" "r1 \<le> 1" and r2: "0 \<le> r2" "r2 \<le> 1"
    using "1.prems"(1) by auto
  have a: "0 \<le> lx * r1" "lx * r1 \<le> lx" "0 \<le> ly * r2" "ly * r2 \<le> ly"
    using r1 r2 "1.prems"(2,3) by (simp_all add: mult_left_le)
  from "1.prems"(4) have "(u, v, s) = (xmin + lx * r1, ymin + ly * r2, r3)
      \<or> (u, v, s) \<in> set (proposals xmin lx ymin ly rest)"
    by simp
  then show ?case
  proof
    assume "(u, v, s) = (xmin + lx * r1, ymin + ly * r2, r3)"
    with a show ?thesis by simp
  next
    assume m: "(u, v, s) \<in> set (proposals xmin lx ymin ly rest)"
    from "1.prems"(1) have "\<forall>r \<in> set rest. 0 \<le> r \<and> r < 1" by simp
    from "1.IH" [OF this "1.prems"(2,3) m] show ?thesis .
  qed
qed simp_all

lemma accepted_from_proposals:
  "(u, v) \<in> set (accepted f ps) \<Longrightarrow> \<exists>s. (u, v, s) \<in> set ps \<and> s < f u v"
  by (auto simp add: accepted_def)

lemma samples_in_box:
  assumes "\<forall>r \<in> set draws. 0 \<le> r \<and> r < 1"
    and "fst (z_sep b) \<le> snd (z_sep b)" and "0 \<le> p_sep b"
    and "(u, v) \<in> set (samples interp2d b psi draws)"
  shows "fst (z_sep b) \<le> u \<and> u \<le> snd (z_sep b) \<and> - p_sep b \<le> v \<and> v \<le> p_sep b"
proof -
  from assms(4) obtain s where
    "(u, v, s) \<in> set (proposals (fst (z_sep b)) (snd (z_sep b) - fst (z_sep b)) (- p_sep b)
        (p_sep b - - p_sep b) draws)"
    unfolding samples_def by (blast dest: accepted_from_proposals)
  from proposals_in_box [OF assms(1) _ _ this] assms(2,3) show ?thesis by simp
qed

subsection \<open>The calls of generate\<close>

lemma generate_raised:
  assumes "set_target_std est b (StationaryExponential_init (hamiltonian b)) (sigma_z b) = (out, Inl err)"
  shows "generate est interp2d b draws particles = (out, Raised err, particles)"
  using assms by (simp add: generate_def)

lemma generate_matched:
  assumes "set_target_std est b (StationaryExponential_init (hamiltonian b)) (sigma_z b) = (out, Inr psi)"
  shows "generate est interp2d b draws particles =
    (case rejection (psi_interpolant interp2d b psi) (fst (z_sep b)) (snd (z_sep b) - fst (z_sep b))
            (- p_sep b) (p_sep b - - p_sep b) (n_macroparticles particles)
            (replicate (n_macroparticles particles) 0) (replicate (n_macroparticles particles) 0) 0 0 draws of
       None \<Rightarrow> (out, Sampling, particles)
     | Some (x', y', i', j') \<Rightarrow>
         (out, Returned, particles\<lparr>part_z := x', part_dp := y', part_psi := Some psi\<rparr>))"
  using assms by (simp add: generate_def Let_def)

lemma rejection_from_start:
  assumes "rejection (psi_interpolant interp2d b psi) (fst (z_sep b)) (snd (z_sep b) - fst (z_sep b))
            (- p_sep b) (p_sep b - - p_sep b) n (replicate n 0) (replicate n 0) 0 0 draws
          = Some (x', y', i', j')"
  shows "length x' = n \<and> length y' = n \<and> n \<le> length (samples interp2d b psi draws)
     \<and> zip x' y' = take n (samples interp2d b psi draws)"
  using rejection_result [OF assms] by (simp add: samples_def)

text \<open>The three ways a call of generate can stand.\<close>

lemma generate_cases:
  obtains (raised) out err where
      "set_target_std est b (StationaryExponential_init (hamiltonian b)) (sigma_z b) = (out, Inl err)"
      "generate est interp2d b draws particles = (out, Raised err, particles)"
  | (sampling) out psi where
      "set_target_std est b (StationaryExponential_init (hamiltonian b)) (sigma_z b) = (out, Inr psi)"
      "generate est interp2d b draws particles = (out, Sampling, particles)"
  | (returned) out psi x' y' where
      "set_target_std est b (StationaryExponential_init (hamiltonian b)) (sigma_z b) = (out, Inr psi)"
      "generate est interp2d b draws particles =
         (out, Returned, particles\<lparr>part_z := x', part_dp := y', part_psi := Some psi\<rparr>)"
      "length x' = n_macroparticles particles" "length y' = n_macroparticles particles"
      "n_macroparticles particles \<le> length (samples interp2d b psi draws)"
      "zip x' y' = take (n_macroparticles particles) (samples interp2d b psi draws)"
proof (cases "set_target_std est b (StationaryExponential_init (hamiltonian b)) (sigma_z b)")
  case (Pair out r)
  show ?thesis
  proof (cases r)
    case (Inl err)
    with Pair raised generate_raised show ?thesis by blast
  next
    case (Inr psi)
    with Pair have m: "set_target_std est b (StationaryExponential_init (hamiltonian b)) (sigma_z b)
        = (out, Inr psi)" by simp
    let ?r = "rejection (psi_interpolant interp2d b psi) (fst (z_sep b)) (snd (z_sep b) - fst (z_sep b))
            (- p_sep b) (p_sep b - - p_sep b) (n_macroparticles particles)
            (replicate (n_macroparticles particles) 0) (replicate (n_macroparticles particles) 0) 0 0 draws"
    show ?thesis
    proof (cases ?r)
      case None
      with generate_matched [OF m, of interp2d draws particles]
      have "generate est interp2d b draws particles = (out, Sampling, particles)" by simp
      with m sampling show ?thesis by blast
    next
      case (Some res)
      obtain x' y' i' j' where res: "res = (x', y', i', j')" by (cases res) auto
      from Some res generate_matched [OF m, of interp2d draws particles]
      have g: "generate est interp2d b draws particles =
         (out, Returned, particles\<lparr>part_z := x', part_dp := y', part_psi := Some psi\<rparr>)" by simp
      from rejection_from_start [OF Some [unfolded res]] m g returned show ?thesis by blast
    qed
  qed
qed

lemma toy_matching:
  "set_target_std toy_estimators toy_bucket (StationaryExponential_init (hamiltonian toy_bucket))
     (sigma_z toy_bucket)
   = ([MaximumLength 3, MaximumLength 1, TooLong, MaximumLength 2, IterativeEvaluation,
       Iteration 0 1 2 1, Iteration 1 (1 / 2) 1 0, Converged], Inr toy_matched)"
proof -
  have h: "hamiltonian toy_bucket = rf_hamiltonian toy_rf" "sigma_z toy_bucket = 1"
    by (simp_all add: toy_bucket_def RFBucket_init_def)
  show ?thesis unfolding h toy_psi_def [symmetric] toy_matched_def by (rule toy_run)
qed

lemma far_matching:
  "snd (set_target_std far_estimators far_bucket (StationaryExponential_init (hamiltonian far_bucket))
     (sigma_z far_bucket)) = Inl Abort"
proof -
  have h: "hamiltonian far_bucket = rf_hamiltonian toy_rf" "sigma_z far_bucket = 1"
    by (simp_all add: far_bucket_def RFBucket_init_def)
  show ?thesis unfolding h toy_psi_def [symmetric] by (rule far_run)
qed

lemma flat_interpolant: "psi_interpolant flat_interp b psi = (\<lambda>u v. 1 / 2)"
  by (rule ext, rule ext) (simp add: psi_interpolant_def Let_def flat_interp_def)

lemma toy_box: "z_sep toy_bucket = (- 1, 1)" "p_sep toy_bucket = 1"
  by (simp_all add: toy_bucket_def RFBucket_init_def toy_rf_def)

lemma toy_rejection:
  "rejection (\<lambda>u v. 1 / 2) (- 1) 2 (- 1) 2 2 [0, 0] [0, 0] 0 0 toy_draws = Some ([0, - 1], [0, 0], 3, 2)"
  unfolding toy_draws_def
  by (simp add: rejection_accept rejection_reject rejection_done)

lemma toy_generate:
  "generate toy_estimators flat_interp toy_bucket toy_draws toy_particles
   = ([MaximumLength 3, MaximumLength 1, TooLong, MaximumLength 2, IterativeEvaluation,
       Iteration 0 1 2 1, Iteration 1 (1 / 2) 1 0, Converged], Returned,
      toy_particles\<lparr>part_z := [0, - 1], part_dp := [0, 0], part_psi := Some toy_matched\<rparr>)"
proof -
  have n: "n_macroparticles toy_particles = 2" by (simp add: toy_particles_def)
  have r: "replicate 2 (0::real) = [0, 0]" by (simp add: numeral_2_eq_2)
  show ?thesis
    by (simp add: generate_matched [OF toy_matching] flat_interpolant toy_box n r toy_rejection)
qed

lemma short_generate:
  "generate toy_estimators flat_interp toy_bucket (take 4 toy_draws) toy_particles
   = ([MaximumLength 3, MaximumLength 1, TooLong, MaximumLength 2, IterativeEvaluation,
       Iteration 0 1 2 1, Iteration 1 (1 / 2) 1 0, Converged], Sampling, toy_particles)"
proof -
  have n: "n_macroparticles toy_particles = 2" by (simp add: toy_particles_def)
  have r: "replicate 2 (0::real) = [0, 0]" by (simp add: numeral_2_eq_2)
  have "rejection (\<lambda>u v. 1 / 2) (- 1) 2 (- 1) 2 2 [0, 0] [0, 0] 0 0 (take 4 toy_draws) = None"
    unfolding toy_draws_def by (simp add: rejection_accept rejection_exhausted)
  then show ?thesis
    by (simp add: generate_matched [OF toy_matching] flat_interpolant toy_box n r)
qed

lemma far_generate:
  "snd (generate far_estimators flat_interp far_bucket toy_draws toy_particles)
     = (Raised Abort, toy_particles)"
proof (cases "set_target_std far_estimators far_bucket
    (StationaryExponential_init (hamiltonian far_bucket)) (sigma_z far_bucket)")
  case (Pair out r)
  with far_matching have "r = Inl Abort" by simp
  with Pair show ?thesis by (simp add: generate_raised)
qed

lemma toy_fields:
  "n_macroparticles toy_particles = 2" "part_x toy_particles = [1, 2]"
  "part_yp toy_particles = [7, 8]"
  by (simp_all add: toy_particles_def)

subsection \<open>The samples\<close>

text \<open>
  Claim C5. When \<open>generate\<close> returns, with draws in \<open>[0, 1)\<close> and a box that is not
  empty (\<open>z_sep[0] \<le> z_sep[1]\<close>, \<open>p_sep \<ge> 0\<close>): \<open>particles.z\<close> and \<open>particles.dp\<close> have
  \<open>n_macroparticles\<close> entries each; entry by entry they are the first \<open>n_macroparticles\<close>
  proposals \<open>(u, v)\<close>, \<open>u = xmin + lx * r1\<close>, \<open>v = ymin + ly * r2\<close>, whose third draw
  satisfied \<open>s < psi_interp(u, v)\<close>, in the order they were drawn; and every one lies in
  \<open>[z_sep[0], z_sep[1]] x [-p_sep, p_sep]\<close>.
\<close>

theorem generate_samples:
  assumes "generate est interp2d b draws particles = (out, Returned, particles')"
    and "\<forall>r \<in> set draws. 0 \<le> r \<and> r < 1"
    and "fst (z_sep b) \<le> snd (z_sep b)" and "0 \<le> p_sep b"
  shows "\<exists>psi. part_psi particles' = Some psi
     \<and> set_target_std est b (StationaryExponential_init (hamiltonian b)) (sigma_z b) = (out, Inr psi)
     \<and> length (part_z particles') = n_macroparticles particles
     \<and> length (part_dp particles') = n_macroparticles particles
     \<and> zip (part_z particles') (part_dp particles')
         = take (n_macroparticles particles) (samples interp2d b psi draws)
     \<and> (\<forall>(u, v) \<in> set (zip (part_z particles') (part_dp particles')).
           fst (z_sep b) \<le> u \<and> u \<le> snd (z_sep b) \<and> - p_sep b \<le> v \<and> v \<le> p_sep b)"
proof (cases rule: generate_cases [of est b interp2d draws particles])
  case (raised out' err)
  with assms(1) show ?thesis by simp
next
  case (sampling out' psi)
  with assms(1) show ?thesis by simp
next
  case (returned out' psi x' y')
  from returned(2) assms(1)
  have o: "out' = out" and p: "particles' = particles\<lparr>part_z := x', part_dp := y', part_psi := Some psi\<rparr>"
    by simp_all
  have box: "fst (z_sep b) \<le> u \<and> u \<le> snd (z_sep b) \<and> - p_sep b \<le> v \<and> v \<le> p_sep b"
    if "(u, v) \<in> set (zip x' y')" for u v
  proof -
    from that returned(6) have "(u, v) \<in> set (samples interp2d b psi draws)"
      by (auto dest: in_set_takeD)
    from samples_in_box [OF assms(2,3,4) this] show ?thesis .
  qed
  from returned(1,3,4,6) o p box show ?thesis by auto
qed

theorem generate_samples_witness:
  "generate toy_estimators flat_interp toy_bucket toy_draws toy_particles
     = ([MaximumLength 3, MaximumLength 1, TooLong, MaximumLength 2, IterativeEvaluation,
         Iteration 0 1 2 1, Iteration 1 (1 / 2) 1 0, Converged], Returned,
        toy_particles\<lparr>part_z := [0, - 1], part_dp := [0, 0], part_psi := Some toy_matched\<rparr>)
   \<and> list_all (\<lambda>r. 0 \<le> r \<and> r < 1) toy_draws
   \<and> fst (z_sep toy_bucket) \<le> snd (z_sep toy_bucket) \<and> 0 \<le> p_sep toy_bucket
   \<and> n_macroparticles toy_particles = 2
   \<and> zip [0, - 1] [0, 0] = take 2 (samples flat_interp toy_bucket toy_matched toy_draws)"
proof -
  have d: "\<forall>r \<in> set toy_draws. 0 \<le> r \<and> r < 1" by (simp add: toy_draws_def)
  have b: "fst (z_sep toy_bucket) \<le> snd (z_sep toy_bucket)" "0 \<le> p_sep toy_bucket"
    by (simp_all add: toy_box)
  have n: "n_macroparticles toy_particles = 2" by (simp add: toy_particles_def)
  from generate_samples [OF toy_generate d b]
  have z: "zip [0, - 1] [0, 0] = take 2 (samples flat_interp toy_bucket toy_matched toy_draws)"
    by (simp add: toy_matching n)
  have l: "list_all (\<lambda>r. 0 \<le> r \<and> r < 1) toy_draws" using d by (simp add: list_all_iff)
  from toy_generate l b n z show ?thesis by blast
qed

subsection \<open>What generate writes\<close>

text \<open>
  Claim C10. However a call of \<open>generate\<close> stands, \<open>n_macroparticles\<close>, \<open>x\<close>, \<open>xp\<close>, \<open>y\<close>
  and \<open>yp\<close> of the buffer are as before the call. While the call is sampling, and when
  it has raised, the whole buffer is as before the call: no entry of \<open>z\<close> or \<open>dp\<close> has
  been written. When it has returned, \<open>z\<close> and \<open>dp\<close> hold \<open>n_macroparticles\<close> entries
  each, all of them accepted samples, and \<open>psi\<close> is the matched density.
\<close>

theorem generate_frame:
  "case generate est interp2d b draws particles of
     (out, res, particles') \<Rightarrow>
       n_macroparticles particles' = n_macroparticles particles
       \<and> part_x particles' = part_x particles \<and> part_xp particles' = part_xp particles
       \<and> part_y particles' = part_y particles \<and> part_yp particles' = part_yp particles
       \<and> (if res = Returned
          then length (part_z particles') = n_macroparticles particles
             \<and> length (part_dp particles') = n_macroparticles particles
             \<and> (\<exists>psi. part_psi particles' = Some psi
                  \<and> n_macroparticles particles \<le> length (samples interp2d b psi draws)
                  \<and> zip (part_z particles') (part_dp particles')
                      = take (n_macroparticles particles) (samples interp2d b psi draws))
          else particles' = particles)"
proof (cases rule: generate_cases [of est b interp2d draws particles])
  case (raised out err)
  then show ?thesis by simp
next
  case (sampling out psi)
  then show ?thesis by simp
next
  case (returned out psi x' y')
  then show ?thesis by simp
qed

theorem generate_frame_witness:
  "n_macroparticles (snd (snd (generate toy_estimators flat_interp toy_bucket toy_draws toy_particles))) = 2
   \<and> part_x (snd (snd (generate toy_estimators flat_interp toy_bucket toy_draws toy_particles))) = [1, 2]
   \<and> part_yp (snd (snd (generate toy_estimators flat_interp toy_bucket toy_draws toy_particles))) = [7, 8]
   \<and> part_z (snd (snd (generate toy_estimators flat_interp toy_bucket toy_draws toy_particles))) = [0, - 1]
   \<and> snd (generate toy_estimators flat_interp toy_bucket (take 4 toy_draws) toy_particles)
       = (Sampling, toy_particles)
   \<and> snd (generate far_estimators flat_interp far_bucket toy_draws toy_particles)
       = (Raised Abort, toy_particles)"
proof -
  from generate_frame [where est = toy_estimators and ?interp2d = flat_interp and b = toy_bucket and draws = toy_draws and particles = toy_particles]
  have a: "n_macroparticles (snd (snd (generate toy_estimators flat_interp toy_bucket toy_draws toy_particles))) = 2
   \<and> part_x (snd (snd (generate toy_estimators flat_interp toy_bucket toy_draws toy_particles))) = [1, 2]
   \<and> part_yp (snd (snd (generate toy_estimators flat_interp toy_bucket toy_draws toy_particles))) = [7, 8]"
    by (simp add: toy_generate toy_fields)
  have z: "part_z (snd (snd (generate toy_estimators flat_interp toy_bucket toy_draws toy_particles))) = [0, - 1]"
    by (simp add: toy_generate)
  from generate_frame [where est = toy_estimators and ?interp2d = flat_interp and b = toy_bucket and draws = "take 4 toy_draws" and particles = toy_particles]
  have b: "snd (generate toy_estimators flat_interp toy_bucket (take 4 toy_draws) toy_particles)
       = (Sampling, toy_particles)"
    by (simp add: short_generate)
  from generate_frame [where est = far_estimators and ?interp2d = flat_interp and b = far_bucket and draws = toy_draws and particles = toy_particles]
  have c: "snd (generate far_estimators flat_interp far_bucket toy_draws toy_particles)
       = (Raised Abort, toy_particles)"
    by (simp add: far_generate)
  from a z b c show ?thesis by blast
qed

end
